theory Spec2Isabelle
  imports Complex_Main "HOL-Library.Multiset"
begin

section \<open>Values of Python and numpy\<close>

text \<open>
  The geolocation code of the repository (\<^verbatim>\<open>src/geo/geo_triangulation.py\<close> and
  \<^verbatim>\<open>src/geo/geo_correlator.py\<close>) computes on float64 numbers. They are embedded as
  \<^typ>\<open>real\<close>: rounding error and overflow are not modelled. The one place where the code
  really divides by a float that can be zero, the sum of the confidences, yields numpy's
  \<^verbatim>\<open>nan\<close>; it is written \<open>None\<close> in a \<^typ>\<open>real option\<close>. The sine of a positive float
  and the cosine of a float are never exactly zero, so those divisors are left to HOL's
  division, and the statements below that speak about such a quotient exclude a zero
  divisor.
\<close>

datatype error =
    NotFound string          \<comment> \<open>\<^verbatim>\<open>{"error": "Objetivo <id> no encontrado"}\<close>\<close>
  | InsufficientData nat     \<comment> \<open>\<^verbatim>\<open>{"error": "Se requieren al menos 2 observaciones (actual: <n>)"}\<close>\<close>
  | MissingGPS               \<comment> \<open>\<^verbatim>\<open>{"error": "Datos GPS no disponibles en telemetria"}\<close>\<close>
  | ValueError               \<comment> \<open>raised by numpy on a reduction of an empty array, or on a shape mismatch\<close>
  | IndexError               \<comment> \<open>raised by a list index out of range\<close>
  | KeyError                 \<comment> \<open>raised by a dictionary lookup of an absent key\<close>
  | ZeroDivisionError        \<comment> \<open>raised by \<^verbatim>\<open>np.average\<close> when the weights sum to zero\<close>

definition radians :: "real \<Rightarrow> real" where
  "radians x = x * pi / 180"

definition degrees :: "real \<Rightarrow> real" where
  "degrees x = x * 180 / pi"

text \<open>\<^verbatim>\<open>str(n)\<close> of a non-negative integer: its decimal digits.\<close>

definition digit_char :: "nat \<Rightarrow> char" where
  "digit_char d = char_of (48 + d)"

fun str_nat :: "nat \<Rightarrow> string" where
  "str_nat n = (if n < 10 then [digit_char n] else str_nat (n div 10) @ [digit_char (n mod 10)])"

declare str_nat.simps [simp del]

text \<open>\<^verbatim>\<open>np.max\<close> of a one-dimensional array; numpy raises ValueError on an empty one.\<close>

fun np_max :: "real list \<Rightarrow> error + real" where
  "np_max [] = Inl ValueError"
| "np_max (x # xs) = Inr (fold max xs x)"

section \<open>GeoTriangulation\<close>

record drone_position =
  latitude :: real
  longitude :: real
  altitude :: real

record observation =
  obs_id :: string
  obs_drone_position :: drone_position
  target_bearing :: real
  target_elevation :: real
  confidence :: real
  obs_timestamp :: real

text \<open>The object's only attribute: the dictionary from target ids to observation lists.\<close>

record GeoTriangulation =
  observations :: "string \<rightharpoonup> observation list"

definition init :: GeoTriangulation where
  "init = \<lparr>observations = Map.empty\<rparr>"

text \<open>
  \<^verbatim>\<open>add_observation\<close>; \<open>now\<close> is the reading of \<^verbatim>\<open>time.time()\<close>. The result is the returned
  observation id and the object after the call.
\<close>

definition add_observation ::
  "GeoTriangulation \<Rightarrow> string \<Rightarrow> drone_position \<Rightarrow> real \<Rightarrow> real \<Rightarrow> real \<Rightarrow> real
     \<Rightarrow> string \<times> GeoTriangulation" where
  "add_observation self tid drone_pos bearing elevation conf now =
    (let stored = (case observations self tid of None \<Rightarrow> [] | Some obs \<Rightarrow> obs);
         observation_id = tid @ ''_'' @ str_nat (length stored);
         entry = \<lparr>obs_id = observation_id, obs_drone_position = drone_pos,
                  target_bearing = bearing, target_elevation = elevation,
                  confidence = conf, obs_timestamp = now\<rparr>
     in (observation_id,
         self\<lparr>observations := (observations self)(tid \<mapsto> stored @ [entry])\<rparr>))"

definition reset_target :: "GeoTriangulation \<Rightarrow> string \<Rightarrow> bool \<times> GeoTriangulation" where
  "reset_target self tid =
    (if tid \<in> dom (observations self)
     then (True, self\<lparr>observations := (observations self)(tid := None)\<rparr>)
     else (False, self))"

text \<open>
  \<^verbatim>\<open>create_target\<close>; \<open>hex\<close> is the value of \<^verbatim>\<open>uuid.uuid4().hex\<close>, drawn outside the model.
\<close>

definition create_target :: "GeoTriangulation \<Rightarrow> string \<Rightarrow> string \<times> GeoTriangulation" where
  "create_target self hex =
    (let tid = ''target_'' @ take 8 hex
     in (tid, self\<lparr>observations := (observations self)(tid \<mapsto> [])\<rparr>))"

subsection \<open>calculate_position\<close>

definition validate_observations :: "GeoTriangulation \<Rightarrow> string \<Rightarrow> error option" where
  "validate_observations self tid =
    (case observations self tid of
       None \<Rightarrow> Some (NotFound tid)
     | Some obs \<Rightarrow>
         let observation_count = length obs
         in if observation_count < 2 then Some (InsufficientData observation_count)
            else None)"

record observation_data =
  positions :: "(real \<times> real \<times> real) list"
  bearings :: "real list"
  elevations :: "real list"
  weights :: "real list"

definition extract_observation_data :: "observation list \<Rightarrow> observation_data" where
  "extract_observation_data obs =
    \<lparr>positions = map (\<lambda>ob. let pos = obs_drone_position ob
                            in (latitude pos, longitude pos, altitude pos)) obs,
     bearings = map target_bearing obs,
     elevations = map target_elevation obs,
     weights = map confidence obs\<rparr>"

text \<open>
  \<^verbatim>\<open>_estimate_distance\<close>: the distance chosen by the \<^verbatim>\<open>if\<close> (lines 154 to 157), then the
  cap of line 160.
\<close>

definition distance_before_cap :: "real \<Rightarrow> real \<Rightarrow> real" where
  "distance_before_cap alt elevation =
    (if elevation > 0 then alt / sin elevation else 1000)"

definition estimate_distance :: "real \<Rightarrow> real \<Rightarrow> real" where
  "estimate_distance alt elevation = min (distance_before_cap alt elevation) 10000"

definition calculate_target_coordinates ::
  "real \<Rightarrow> real \<Rightarrow> real \<Rightarrow> real \<Rightarrow> real \<Rightarrow> real \<times> real" where
  "calculate_target_coordinates lat lon bearing distance earth_radius =
    (let lat_rad = radians lat;
         lon_rad = radians lon;
         target_lat_rad = lat_rad + (distance / earth_radius) * cos bearing;
         target_lon_rad = lon_rad + (distance / earth_radius) * sin bearing / cos lat_rad
     in (degrees target_lat_rad, degrees target_lon_rad))"

text \<open>The body of the loop of \<^verbatim>\<open>_calculate_estimated_points\<close>, at index \<open>i\<close>.\<close>

definition estimated_point_at :: "observation_data \<Rightarrow> nat \<Rightarrow> error + real \<times> real" where
  "estimated_point_at d i =
    (if i < length (bearings d) \<and> i < length (elevations d)
     then (case positions d ! i of (lat, lon, alt) \<Rightarrow>
             let bearing = radians (bearings d ! i);
                 elevation = radians (elevations d ! i);
                 distance = estimate_distance alt elevation
             in Inr (calculate_target_coordinates lat lon bearing distance 6371000))
     else Inl IndexError)"

fun collect :: "(error + 'a) list \<Rightarrow> error + 'a list" where
  "collect [] = Inr []"
| "collect (Inl e # rs) = Inl e"
| "collect (Inr x # rs) = (case collect rs of Inl e \<Rightarrow> Inl e | Inr xs \<Rightarrow> Inr (x # xs))"

definition calculate_estimated_points :: "observation_data \<Rightarrow> error + (real \<times> real) list" where
  "calculate_estimated_points d =
    collect (map (estimated_point_at d) [0..<length (positions d)])"

text \<open>
  What the loop computes for one stored observation, once \<^verbatim>\<open>_extract_observation_data\<close>
  has split it into the four arrays (lemma \<open>calculate_estimated_points_extract\<close> below).
\<close>

definition estimated_point :: "observation \<Rightarrow> real \<times> real" where
  "estimated_point ob =
    calculate_target_coordinates (latitude (obs_drone_position ob))
      (longitude (obs_drone_position ob)) (radians (target_bearing ob))
      (estimate_distance (altitude (obs_drone_position ob)) (radians (target_elevation ob)))
      6371000"

text \<open>
  \<^verbatim>\<open>_calculate_weighted_average\<close>, first line: \<^verbatim>\<open>weights / np.sum(weights)\<close>. When the sum is
  zero and the array is not empty the quotients are nan or infinite, and their sum is nan:
  \<open>None\<close>. An empty array stays empty.
\<close>

definition normalize_weights :: "real list \<Rightarrow> real list option" where
  "normalize_weights ws =
    (let total = sum_list ws in
     if ws \<noteq> [] \<and> total = 0 then None else Some (map (\<lambda>w. w / total) ws))"

text \<open>
  \<^verbatim>\<open>np.average(estimated_points, axis=0, weights=normalized_weights)\<close> divides the weighted
  column sums by the sum \<open>scl\<close> of the weights; it raises when the two arrays differ in
  length and when \<open>scl\<close> is zero (as it is for empty arrays). With nan weights it returns nan
  in both columns: \<open>Inr None\<close>.
\<close>

definition calculate_weighted_average ::
  "(real \<times> real) list \<Rightarrow> real list \<Rightarrow> error + (real \<times> real) option" where
  "calculate_weighted_average estimated_points ws =
    (case normalize_weights ws of
       None \<Rightarrow> if length estimated_points \<noteq> length ws then Inl ValueError else Inr None
     | Some normalized_weights \<Rightarrow>
         let scl = sum_list normalized_weights
         in if length estimated_points \<noteq> length normalized_weights then Inl ValueError
            else if scl = 0 then Inl ZeroDivisionError
            else Inr (Some
              (sum_list (map2 (\<lambda>p w. fst p * w) estimated_points normalized_weights) / scl,
               sum_list (map2 (\<lambda>p w. snd p * w) estimated_points normalized_weights) / scl)))"

record precision =
  meters :: "real option"
  prec_confidence :: real
  max_deviation_meters :: "real option"

text \<open>
  \<^verbatim>\<open>_calculate_precision_metrics\<close>. With a nan average position every distance is nan, and
  so are their maximum and mean; Python's \<^verbatim>\<open>min(99, nan)\<close> is 99, since \<^verbatim>\<open>nan < 99\<close> is
  false, so the confidence is then 99.
\<close>

definition calculate_precision_metrics ::
  "(real \<times> real) list \<Rightarrow> (real \<times> real) option \<Rightarrow> nat \<Rightarrow> error + precision" where
  "calculate_precision_metrics estimated_points weighted_position num_observations =
    (case weighted_position of
       None \<Rightarrow>
         (if estimated_points = [] then Inl ValueError
          else Inr \<lparr>meters = None, prec_confidence = 99, max_deviation_meters = None\<rparr>)
     | Some c \<Rightarrow>
         let distances = map (\<lambda>p. sqrt ((fst p - fst c)\<^sup>2 + (snd p - snd c)\<^sup>2)) estimated_points
         in (case np_max distances of
               Inl e \<Rightarrow> Inl e
             | Inr max_distance \<Rightarrow>
                 let avg_distance = sum_list distances / real (length distances);
                     precision_confidence =
                       100 * (1 - avg_distance / 0.001) * tanh (real num_observations / 3);
                     precision_confidence = max 0 (min 99 precision_confidence)
                 in Inr \<lparr>meters = Some (avg_distance * 111000),
                          prec_confidence = precision_confidence,
                          max_deviation_meters = Some (max_distance * 111000)\<rparr>))"

record position =
  pos_latitude :: "real option"
  pos_longitude :: "real option"
  pos_altitude :: int

record position_estimate =
  target_id :: string
  position :: position
  precision :: precision
  observations_count :: nat
  timestamp :: real

definition build_result ::
  "string \<Rightarrow> (real \<times> real) option \<Rightarrow> precision \<Rightarrow> nat \<Rightarrow> real \<Rightarrow> position_estimate" where
  "build_result tid weighted_position precision_metrics observation_count now =
    \<lparr>target_id = tid,
     position = \<lparr>pos_latitude = map_option fst weighted_position,
                 pos_longitude = map_option snd weighted_position,
                 pos_altitude = 0\<rparr>,
     precision = precision_metrics,
     observations_count = observation_count,
     timestamp = now\<rparr>"

text \<open>
  \<^verbatim>\<open>calculate_position\<close>, with the object threaded through as for the mutating methods: the
  second component is the object after the call. \<open>now\<close> is the reading of \<^verbatim>\<open>time.time()\<close>
  in \<^verbatim>\<open>_build_result\<close>.
\<close>

definition calculate_position ::
  "GeoTriangulation \<Rightarrow> string \<Rightarrow> real \<Rightarrow> (error + position_estimate) \<times> GeoTriangulation" where
  "calculate_position self tid now =
    (case validate_observations self tid of
       Some e \<Rightarrow> (Inl e, self)
     | None \<Rightarrow>
        (case observations self tid of
           None \<Rightarrow> (Inl KeyError, self)
         | Some obs \<Rightarrow>
            let observation_data = extract_observation_data obs
            in (case calculate_estimated_points observation_data of
                  Inl e \<Rightarrow> (Inl e, self)
                | Inr estimated_points \<Rightarrow>
                   (case calculate_weighted_average estimated_points
                           (weights observation_data) of
                      Inl e \<Rightarrow> (Inl e, self)
                    | Inr weighted_position \<Rightarrow>
                       (case calculate_precision_metrics estimated_points weighted_position
                               (length obs) of
                          Inl e \<Rightarrow> (Inl e, self)
                        | Inr precision_metrics \<Rightarrow>
                            (Inr (build_result tid weighted_position precision_metrics
                                    (length obs) now), self))))))"

subsection \<open>Sequences of calls\<close>

text \<open>A call of one of the three mutating methods, with the values it draws from outside.\<close>

datatype call =
    AddObservation string drone_position real real real real
  | ResetTarget string
  | CreateTarget string

fun step :: "GeoTriangulation \<Rightarrow> call \<Rightarrow> GeoTriangulation" where
  "step self (AddObservation tid drone_pos bearing elevation conf now) =
     snd (add_observation self tid drone_pos bearing elevation conf now)"
| "step self (ResetTarget tid) = snd (reset_target self tid)"
| "step self (CreateTarget hex) = snd (create_target self hex)"

definition run :: "call list \<Rightarrow> GeoTriangulation" where
  "run calls = foldl step init calls"

text \<open>
  The ids of a stored list are the target id, an underscore and the indices \<open>0, 1, ...\<close> in
  order: the invariant of the dictionary under the three calls.
\<close>

definition numbered :: "string \<Rightarrow> observation list \<Rightarrow> bool" where
  "numbered tid obs = (map obs_id obs = map (\<lambda>i. tid @ ''_'' @ str_nat i) [0..<length obs])"

text \<open>
  What an observation is made from, without the clock reading: drone position, bearing,
  elevation and confidence.
\<close>

type_synonym sighting = "drone_position \<times> real \<times> real \<times> real"

fun add_all :: "GeoTriangulation \<Rightarrow> string \<Rightarrow> (sighting \<times> real) list \<Rightarrow> GeoTriangulation" where
  "add_all self tid [] = self"
| "add_all self tid (((drone_pos, bearing, elevation, conf), now) # rest) =
     add_all (snd (add_observation self tid drone_pos bearing elevation conf now)) tid rest"

text \<open>
  The sighting an observation was made from, the point and weight that the stages of
  \<^verbatim>\<open>calculate_position\<close> derive from it, and the list held for a target (empty when the
  target is not a key).
\<close>

definition sighting_of :: "observation \<Rightarrow> sighting" where
  "sighting_of ob =
    (obs_drone_position ob, target_bearing ob, target_elevation ob, confidence ob)"

definition sighting_point :: "sighting \<Rightarrow> real \<times> real" where
  "sighting_point s =
    (case s of (drone_pos, bearing, elevation, conf) \<Rightarrow>
      calculate_target_coordinates (latitude drone_pos) (longitude drone_pos) (radians bearing)
        (estimate_distance (altitude drone_pos) (radians elevation)) 6371000)"

definition sighting_confidence :: "sighting \<Rightarrow> real" where
  "sighting_confidence s = (case s of (drone_pos, bearing, elevation, conf) \<Rightarrow> conf)"

definition stored_observations :: "GeoTriangulation \<Rightarrow> string \<Rightarrow> observation list" where
  "stored_observations self tid = (case observations self tid of None \<Rightarrow> [] | Some obs \<Rightarrow> obs)"

text \<open>The part of a result that does not depend on the clock.\<close>

definition estimate_values ::
  "error + position_estimate \<Rightarrow> error + string \<times> position \<times> precision \<times> nat" where
  "estimate_values r =
    (case r of Inl e \<Rightarrow> Inl e
     | Inr est \<Rightarrow> Inr (target_id est, position est, precision est, observations_count est))"

subsection \<open>Scenario A\<close>

definition pose_A :: drone_position where
  "pose_A = \<lparr>latitude = 40, longitude = - 74, altitude = 100\<rparr>"

definition scenario_A :: GeoTriangulation where
  "scenario_A =
     snd (add_observation (snd (add_observation init ''A'' pose_A 0 30 1 0)) ''A'' pose_A 90 30 1 1)"

text \<open>
  The offset in degrees of a point 200 m away along a meridian on a sphere of radius
  6371000 m.
\<close>

definition offset_A :: real where
  "offset_A = 200 / 6371000 * 180 / pi"

section \<open>GeoCorrelator\<close>

record gps =
  gps_latitude :: "real option"
  gps_longitude :: "real option"

record orientation =
  yaw :: "real option"
  pitch :: "real option"
  roll :: "real option"

text \<open>
  The telemetry dictionary: \<open>None\<close> is an absent key. \<^verbatim>\<open>.get(key, default)\<close> is a
  \<open>case\<close> with the default for \<open>None\<close>.
\<close>

record telemetry =
  tel_gps :: "gps option"
  tel_altitude :: "real option"
  tel_orientation :: "orientation option"

text \<open>Python's \<^verbatim>\<open>not v\<close> for \<open>v\<close> a float or \<^verbatim>\<open>None\<close>: true for \<^verbatim>\<open>None\<close> and for zero.\<close>

definition py_not :: "real option \<Rightarrow> bool" where
  "py_not v = (case v of None \<Rightarrow> True | Some x \<Rightarrow> x = 0)"

definition extract_gps_data :: "telemetry \<Rightarrow> error + drone_position" where
  "extract_gps_data drone_telemetry =
    (let g = (case tel_gps drone_telemetry of
                None \<Rightarrow> \<lparr>gps_latitude = None, gps_longitude = None\<rparr> | Some d \<Rightarrow> d);
         lat = gps_latitude g;
         lon = gps_longitude g
     in if py_not lat \<or> py_not lon then Inl MissingGPS
        else (case (lat, lon) of
                (Some la, Some lo) \<Rightarrow>
                  Inr \<lparr>latitude = la, longitude = lo,
                       altitude = (case tel_altitude drone_telemetry of
                                     None \<Rightarrow> 0 | Some a \<Rightarrow> a)\<rparr>
              | _ \<Rightarrow> Inl MissingGPS))"

record correlation_result =
  original_coordinates :: "real \<times> real"
  corrected_coordinates :: "real \<times> real"
  corr_confidence :: real
  coverage_radius_meters :: real
  corr_timestamp :: real
  status :: "string option"
  message :: "string option"

definition perform_correlation ::
  "string \<Rightarrow> string option \<Rightarrow> drone_position \<Rightarrow> telemetry \<Rightarrow> real \<Rightarrow> correlation_result" where
  "perform_correlation drone_image satellite_image gps_data drone_telemetry now =
    (let coverage_radius = altitude gps_data * 0.5;
         correlation_confidence = 0.85;
         corrected = (latitude gps_data + 0.0001, longitude gps_data - 0.0002)
     in \<lparr>original_coordinates = (latitude gps_data, longitude gps_data),
         corrected_coordinates = corrected,
         corr_confidence = correlation_confidence,
         coverage_radius_meters = coverage_radius,
         corr_timestamp = now,
         status = None, message = None\<rparr>)"

definition finalize_correlation_result :: "correlation_result \<Rightarrow> real \<Rightarrow> correlation_result" where
  "finalize_correlation_result result confidence_threshold =
    (if corr_confidence result \<ge> confidence_threshold
     then result\<lparr>status := Some ''high_confidence'', message := Some ''Correlacion exitosa''\<rparr>
     else result\<lparr>status := Some ''low_confidence'',
                 message := Some ''Correlacion debil, usar con precaucion''\<rparr>)"

text \<open>
  \<^verbatim>\<open>correlate_drone_image\<close>. \<open>satellite_image\<close> is what \<^verbatim>\<open>get_satellite_image\<close> reads from
  the cache directory for the coordinates (\<open>None\<close> when there is no cached file); \<open>now\<close> is
  the reading of \<^verbatim>\<open>time.time()\<close>. With numbers in the telemetry no statement of the \<^verbatim>\<open>try\<close>
  block raises, so the \<^verbatim>\<open>except\<close> branch has no counterpart here.
\<close>

definition correlate_drone_image ::
  "string \<Rightarrow> telemetry \<Rightarrow> real \<Rightarrow> (real \<Rightarrow> real \<Rightarrow> string option) \<Rightarrow> real
     \<Rightarrow> error + correlation_result" where
  "correlate_drone_image drone_image drone_telemetry confidence_threshold
       get_satellite_image now =
    (case extract_gps_data drone_telemetry of
       Inl e \<Rightarrow> Inl e
     | Inr gps_data \<Rightarrow>
         let satellite_image = get_satellite_image (latitude gps_data) (longitude gps_data);
             correlation_result =
               perform_correlation drone_image satellite_image gps_data drone_telemetry now
         in Inr (finalize_correlation_result correlation_result confidence_threshold))"

subsection \<open>calculate_real_coordinates\<close>








section \<open>Properties of calculate_position\<close>

subsection \<open>The stages on a stored observation list\<close>

lemma sum_list_divide: "sum_list (map (\<lambda>w. w / t) ws) = sum_list ws / (t::real)"
  by (induction ws) (simp_all add: add_divide_distrib)

lemma collect_Inr: "collect (map (Inr \<circ> f) xs) = Inr (map f xs)"
  by (induction xs) simp_all

lemma estimated_point_at_extract:
  assumes "i < length obs"
  shows "estimated_point_at (extract_observation_data obs) i = Inr (estimated_point (obs ! i))"
  using assms
  by (simp add: estimated_point_at_def extract_observation_data_def estimated_point_def Let_def)

lemma calculate_estimated_points_extract:
  "calculate_estimated_points (extract_observation_data obs) = Inr (map estimated_point obs)"
proof -
  have "map (estimated_point_at (extract_observation_data obs)) [0..<length obs]
        = map (Inr \<circ> estimated_point) obs"
    by (rule nth_equalityI) (simp_all add: estimated_point_at_extract)
  moreover have "length (positions (extract_observation_data obs)) = length obs"
    by (simp add: extract_observation_data_def)
  ultimately show ?thesis
    by (simp add: calculate_estimated_points_def collect_Inr)
qed

lemma calculate_position_two_or_more:
  assumes "observations self tid = Some obs" and "2 \<le> length obs"
  shows "fst (calculate_position self tid now) =
    (case calculate_weighted_average (map estimated_point obs) (map confidence obs) of
       Inl e \<Rightarrow> Inl e
     | Inr wp \<Rightarrow>
        (case calculate_precision_metrics (map estimated_point obs) wp (length obs) of
           Inl e \<Rightarrow> Inl e
         | Inr pm \<Rightarrow> Inr (build_result tid wp pm (length obs) now)))"
proof -
  have w: "weights (extract_observation_data obs) = map confidence obs"
    by (simp add: extract_observation_data_def)
  have v: "validate_observations self tid = None"
    using assms by (simp add: validate_observations_def)
  show ?thesis
    by (simp add: calculate_position_def v assms(1) Let_def calculate_estimated_points_extract w
          split: sum.splits)
qed

lemma calculate_weighted_average_returns:
  assumes "length ps = length ws" and "ws \<noteq> []"
  shows "calculate_weighted_average ps ws =
    Inr (if sum_list ws = 0 then None
         else Some (sum_list (map2 (\<lambda>p w. fst p * w) ps (map (\<lambda>w. w / sum_list ws) ws)),
                    sum_list (map2 (\<lambda>p w. snd p * w) ps (map (\<lambda>w. w / sum_list ws) ws))))"
  using assms
  by (simp add: calculate_weighted_average_def normalize_weights_def sum_list_divide)

lemma np_max_nonempty: "ds \<noteq> [] \<Longrightarrow> np_max ds = Inr (Max (set ds))"
  by (cases ds) (simp_all add: Max.set_eq_fold [symmetric])

lemma calculate_precision_metrics_returns:
  assumes "ps \<noteq> []"
  shows "\<exists>pm. calculate_precision_metrics ps wp n = Inr pm
     \<and> 0 \<le> prec_confidence pm \<and> prec_confidence pm \<le> 99
     \<and> (\<forall>d. meters pm = Some (d * 111000) \<longrightarrow>
            prec_confidence pm = max 0 (min 99 (100 * (1 - d / 0.001) * tanh (real n / 3))))"
proof (cases wp)
  case None
  then show ?thesis using assms by (simp add: calculate_precision_metrics_def)
next
  case (Some c)
  define ds where "ds = map (\<lambda>p. sqrt ((fst p - fst c)\<^sup>2 + (snd p - snd c)\<^sup>2)) ps"
  define avg where "avg = sum_list ds / real (length ds)"
  define pm where "pm = \<lparr>meters = Some (avg * 111000),
      prec_confidence = max 0 (min 99 (100 * (1 - avg / 0.001) * tanh (real n / 3))),
      max_deviation_meters = Some (Max (set ds) * 111000)\<rparr>"
  have "ds \<noteq> []" using assms by (simp add: ds_def)
  then have "calculate_precision_metrics ps wp n = Inr pm"
    unfolding calculate_precision_metrics_def Some pm_def avg_def ds_def
    by (simp add: np_max_nonempty Let_def)
  moreover have "0 \<le> prec_confidence pm" "prec_confidence pm \<le> 99"
    by (simp_all add: pm_def)
  moreover have "\<forall>d. meters pm = Some (d * 111000) \<longrightarrow>
            prec_confidence pm = max 0 (min 99 (100 * (1 - d / 0.001) * tanh (real n / 3)))"
    by (simp add: pm_def)
  ultimately show ?thesis by blast
qed

lemma calculate_position_returns:
  assumes "observations self tid = Some obs" and "2 \<le> length obs"
  shows "\<exists>wp pm. fst (calculate_position self tid now)
                   = Inr (build_result tid wp pm (length obs) now)
     \<and> 0 \<le> prec_confidence pm \<and> prec_confidence pm \<le> 99
     \<and> (\<forall>d. meters pm = Some (d * 111000) \<longrightarrow>
            prec_confidence pm =
              max 0 (min 99 (100 * (1 - d / 0.001) * tanh (real (length obs) / 3))))"
proof -
  have ne: "map confidence obs \<noteq> []" "map estimated_point obs \<noteq> []"
    using assms(2) by auto
  obtain wp where
    wp: "calculate_weighted_average (map estimated_point obs) (map confidence obs) = Inr wp"
    using calculate_weighted_average_returns [of "map estimated_point obs" "map confidence obs"] ne
    by simp
  obtain pm where
    pm: "calculate_precision_metrics (map estimated_point obs) wp (length obs) = Inr pm"
    and b: "0 \<le> prec_confidence pm" "prec_confidence pm \<le> 99"
      "\<forall>d. meters pm = Some (d * 111000) \<longrightarrow>
            prec_confidence pm =
              max 0 (min 99 (100 * (1 - d / 0.001) * tanh (real (length obs) / 3)))"
    using calculate_precision_metrics_returns [OF ne(2), of wp "length obs"] by blast
  have "fst (calculate_position self tid now) = Inr (build_result tid wp pm (length obs) now)"
    by (simp add: calculate_position_two_or_more [OF assms] wp pm)
  then show ?thesis using b by blast
qed

lemma digit_char_0: "digit_char 0 = CHR ''0''"
  by code_simp

lemma digit_char_1: "digit_char (Suc 0) = CHR ''1''"
  by code_simp

lemma str_nat_0: "str_nat 0 = ''0''"
  by (simp add: str_nat.simps digit_char_0)

lemma str_nat_1: "str_nat (Suc 0) = ''1''"
  by (simp add: str_nat.simps digit_char_1)

lemma scenario_A_observations:
  "observations scenario_A ''A'' =
     Some [\<lparr>obs_id = ''A_0'', obs_drone_position = pose_A, target_bearing = 0,
             target_elevation = 30, confidence = 1, obs_timestamp = 0\<rparr>,
           \<lparr>obs_id = ''A_1'', obs_drone_position = pose_A, target_bearing = 90,
             target_elevation = 30, confidence = 1, obs_timestamp = 1\<rparr>]"
  by (simp add: scenario_A_def init_def add_observation_def Let_def str_nat_0 str_nat_1)

subsection \<open>Validation\<close>

text \<open>
  Claim C3, as the code has it. \<^verbatim>\<open>calculate_position\<close> returns the NotFound error exactly for
  a target id that is not a key of the observation dictionary. For a key with fewer than two
  observations (none, as after \<^verbatim>\<open>create_target\<close>, or one) it returns the InsufficientData
  error with the count. Neither case yields an estimate. For a key with two or more
  observations it returns an estimate for that target and that count, and no error is
  returned or raised.
\<close>

theorem calculate_position_validation:
  "(observations self tid = None \<longrightarrow>
      fst (calculate_position self tid now) = Inl (NotFound tid))
   \<and> (\<forall>obs. observations self tid = Some obs \<and> length obs < 2 \<longrightarrow>
      fst (calculate_position self tid now) = Inl (InsufficientData (length obs)))
   \<and> (\<forall>obs. observations self tid = Some obs \<and> 2 \<le> length obs \<longrightarrow>
      (\<exists>est. fst (calculate_position self tid now) = Inr est
             \<and> observations_count est = length obs \<and> target_id est = tid))"
proof (intro conjI allI impI)
  assume "observations self tid = None"
  then show "fst (calculate_position self tid now) = Inl (NotFound tid)"
    by (simp add: calculate_position_def validate_observations_def)
next
  fix obs assume "observations self tid = Some obs \<and> length obs < 2"
  then show "fst (calculate_position self tid now) = Inl (InsufficientData (length obs))"
    by (simp add: calculate_position_def validate_observations_def)
next
  fix obs assume a: "observations self tid = Some obs \<and> 2 \<le> length obs"
  then obtain wp pm where
    "fst (calculate_position self tid now) = Inr (build_result tid wp pm (length obs) now)"
    using calculate_position_returns [of self tid obs now] by blast
  then show "\<exists>est. fst (calculate_position self tid now) = Inr est
             \<and> observations_count est = length obs \<and> target_id est = tid"
    by (simp add: build_result_def)
qed

theorem calculate_position_validation_witness:
  "observations init ''A'' = None
   \<and> fst (calculate_position init ''A'' 5) = Inl (NotFound ''A'')
   \<and> fst (calculate_position (snd (add_observation init ''A'' pose_A 0 30 1 0)) ''A'' 5)
       = Inl (InsufficientData 1)
   \<and> (\<exists>est. fst (calculate_position scenario_A ''A'' 5) = Inr est
             \<and> observations_count est = 2 \<and> target_id est = ''A'')"
  using calculate_position_validation [of init "''A''" 5]
    calculate_position_validation [of "snd (add_observation init ''A'' pose_A 0 30 1 0)" "''A''" 5]
    calculate_position_validation [of scenario_A "''A''" 5]
  by (simp add: scenario_A_observations init_def add_observation_def Let_def numeral_2_eq_2)

text \<open>
  Claim C3 as stated fails: a target that has no observations because \<^verbatim>\<open>create_target\<close> has
  just made it is a key of the dictionary, and the error is InsufficientData, not NotFound.
\<close>

theorem calculate_position_created_target:
  "observations (snd (create_target init ''0123abcd'')) ''target_0123abcd'' = Some []
   \<and> fst (calculate_position (snd (create_target init ''0123abcd'')) ''target_0123abcd'' 0)
       = Inl (InsufficientData 0)
   \<and> fst (calculate_position (snd (create_target init ''0123abcd'')) ''target_0123abcd'' 0)
       \<noteq> Inl (NotFound ''target_0123abcd'')"
  by (simp add: create_target_def init_def calculate_position_def validate_observations_def
        Let_def)

subsection \<open>Distance estimate\<close>

text \<open>
  Claim C5. The distance that \<^verbatim>\<open>_estimate_distance\<close> computes before its cap is
  \<open>altitude / sin elevation\<close> for a positive elevation (the quotient is meant where the sine
  is not zero) and 1000 for an elevation that is zero or negative; the returned estimate is
  that distance capped at 10000, so it is 1000 for every elevation that is zero or negative
  and never exceeds 10000.
\<close>

theorem estimate_distance_spec:
  "(elevation \<le> 0 \<longrightarrow> distance_before_cap alt elevation = 1000
                      \<and> estimate_distance alt elevation = 1000)
   \<and> (0 < elevation \<and> sin elevation \<noteq> 0 \<longrightarrow>
        distance_before_cap alt elevation = alt / sin elevation
        \<and> estimate_distance alt elevation = min (alt / sin elevation) 10000)
   \<and> estimate_distance alt elevation \<le> 10000"
  by (simp add: estimate_distance_def distance_before_cap_def)

theorem estimate_distance_spec_witness:
  "0 < pi / 6 \<and> sin (pi / 6) \<noteq> 0 \<and> estimate_distance 100 (pi / 6) = 200
   \<and> (- 1 :: real) \<le> 0 \<and> estimate_distance 100 (- 1) = 1000"
  using estimate_distance_spec [of "pi / 6" 100] estimate_distance_spec [of "- 1" 100]
  by (simp add: sin_30)

subsection \<open>Weights\<close>

text \<open>
  Claim C8, as the code has it. For confidences whose sum is not zero, the weights that
  \<^verbatim>\<open>_calculate_weighted_average\<close> uses are the confidences divided by their sum, and they sum
  to 1; a single confidence that is not zero is normalised to 1.
\<close>

theorem normalized_weights_sum_to_one:
  "(sum_list ws \<noteq> 0 \<longrightarrow>
      (\<exists>nw. normalize_weights ws = Some nw \<and> nw = map (\<lambda>w. w / sum_list ws) ws
            \<and> sum_list nw = 1))
   \<and> (w \<noteq> 0 \<longrightarrow> normalize_weights [w] = Some [1])"
  by (auto simp add: normalize_weights_def sum_list_divide)

theorem normalized_weights_sum_to_one_witness:
  "sum_list [1, 3 :: real] \<noteq> 0 \<and> normalize_weights [1, 3] = Some [1 / 4, 3 / 4]
   \<and> sum_list [1 / 4, 3 / 4 :: real] = 1
   \<and> (5 :: real) \<noteq> 0 \<and> normalize_weights [5] = Some [1]"
  using normalized_weights_sum_to_one [of "[1, 3]" 5]
  by simp

text \<open>
  Claim C8 as stated fails for confidences that sum to zero: two observations of confidence 0
  (or a single one) are divided by zero, and the weights are nan (\<open>None\<close>), not numbers
  that sum to 1.
\<close>

theorem normalized_weights_zero_sum:
  "normalize_weights [0, 0] = None \<and> normalize_weights [0] = None"
  by (simp add: normalize_weights_def)

subsection \<open>Frame\<close>

text \<open>
  Claim C10. \<^verbatim>\<open>calculate_position\<close> leaves the object as it was, whatever it returns, and a
  second call on the object it leaves returns the same target, position, precision and
  count as the first.
\<close>

theorem calculate_position_frame:
  "snd (calculate_position self tid now) = self
   \<and> estimate_values (fst (calculate_position (snd (calculate_position self tid now)) tid later))
     = estimate_values (fst (calculate_position self tid now))"
proof -
  have frame: "snd (calculate_position self tid now) = self"
    by (simp add: calculate_position_def Let_def split: option.splits sum.splits)
  have "estimate_values (fst (calculate_position self tid later))
        = estimate_values (fst (calculate_position self tid now))"
    by (simp add: calculate_position_def estimate_values_def build_result_def Let_def
          split: option.splits sum.splits)
  then show ?thesis by (simp add: frame)
qed

subsection \<open>Order of insertion\<close>

lemma estimated_point_sighting: "estimated_point ob = sighting_point (sighting_of ob)"
  by (simp add: estimated_point_def sighting_point_def sighting_of_def)

lemma confidence_sighting: "confidence ob = sighting_confidence (sighting_of ob)"
  by (simp add: sighting_confidence_def sighting_of_def)

lemma sum_list_mset_cong:
  fixes f :: "'a \<Rightarrow> real"
  assumes "mset S = mset T"
  shows "sum_list (map f S) = sum_list (map f T)"
proof -
  have "sum_list (map f S) = sum_mset (image_mset f (mset S))"
    by (simp add: sum_mset_sum_list [symmetric])
  also have "\<dots> = sum_mset (image_mset f (mset T))"
    by (simp add: assms)
  also have "\<dots> = sum_list (map f T)"
    by (simp add: sum_mset_sum_list [symmetric])
  finally show ?thesis .
qed

lemma map2_same:
  "map2 h (map f S) (map g S) = map (\<lambda>s. h (f s) (g s)) S"
  by (induction S) simp_all

lemma weighted_average_mset:
  assumes "mset S = mset T"
  shows "calculate_weighted_average (map sighting_point S) (map sighting_confidence S)
       = calculate_weighted_average (map sighting_point T) (map sighting_confidence T)"
proof (cases "S = []")
  case True
  then have "T = []" using assms by simp
  with True show ?thesis by simp
next
  case False
  then have T: "T \<noteq> []" using assms by auto
  have tot: "sum_list (map sighting_confidence S) = sum_list (map sighting_confidence T)"
    by (rule sum_list_mset_cong [OF assms])
  show ?thesis
    using False T
    by (simp add: calculate_weighted_average_returns map2_same tot
          sum_list_mset_cong [OF assms])
qed

lemma precision_metrics_mset:
  assumes "mset S = mset T"
  shows "calculate_precision_metrics (map sighting_point S) wp n
       = calculate_precision_metrics (map sighting_point T) wp n"
proof (cases "S = []")
  case True
  then have "T = []" using assms by simp
  with True show ?thesis by simp
next
  case False
  then have T: "T \<noteq> []" using assms by auto
  have len: "length S = length T"
    using assms by (rule mset_eq_length)
  have st: "set S = set T"
    using assms by (rule mset_eq_setD)
  show ?thesis
  proof (cases wp)
    case None
    then show ?thesis using False T by (simp add: calculate_precision_metrics_def)
  next
    case (Some c)
    then show ?thesis using False T
      by (simp add: calculate_precision_metrics_def np_max_nonempty Let_def comp_def len st
            sum_list_mset_cong [OF assms])
  qed
qed

lemma stored_add_observation:
  "stored_observations (snd (add_observation self tid p b e c now)) tid
     = stored_observations self tid
       @ [\<lparr>obs_id = tid @ ''_'' @ str_nat (length (stored_observations self tid)),
          obs_drone_position = p, target_bearing = b, target_elevation = e,
          confidence = c, obs_timestamp = now\<rparr>]"
  by (simp add: add_observation_def stored_observations_def Let_def)

lemma add_observation_Some:
  "observations (snd (add_observation self tid p b e c now)) tid
     = Some (stored_observations (snd (add_observation self tid p b e c now)) tid)"
  by (simp add: add_observation_def stored_observations_def Let_def)

lemma stored_add_all:
  "map sighting_of (stored_observations (add_all self tid xs) tid)
     = map sighting_of (stored_observations self tid) @ map fst xs"
proof (induction xs arbitrary: self)
  case Nil
  show ?case by simp
next
  case (Cons x xs)
  obtain p b e c now where x: "x = ((p, b, e, c), now)"
    by (metis prod.exhaust)
  have "map sighting_of (stored_observations (add_all self tid (x # xs)) tid)
      = map sighting_of (stored_observations (snd (add_observation self tid p b e c now)) tid) @ map fst xs"
    by (simp add: x Cons.IH)
  also have "\<dots> = map sighting_of (stored_observations self tid) @ map fst (x # xs)"
    by (simp add: x stored_add_observation sighting_of_def)
  finally show ?case .
qed

lemma add_all_Some:
  assumes "xs \<noteq> []"
  shows "observations (add_all self tid xs) tid = Some (stored_observations (add_all self tid xs) tid)"
  using assms
proof (induction xs arbitrary: self)
  case Nil
  then show ?case by simp
next
  case (Cons x xs)
  obtain p b e c now where x: "x = ((p, b, e, c), now)"
    by (metis prod.exhaust)
  show ?case
  proof (cases "xs = []")
    case True
    then show ?thesis by (simp add: x add_observation_Some)
  next
    case False
    then show ?thesis using Cons.IH [OF False] by (simp add: x)
  qed
qed

lemma calculate_position_mset:
  assumes "observations s1 tid = Some A" and "observations s2 tid = Some B"
    and "mset (map sighting_of A) = mset (map sighting_of B)"
  shows "estimate_values (fst (calculate_position s1 tid now))
       = estimate_values (fst (calculate_position s2 tid now'))"
proof -
  have len: "length A = length B"
    using mset_eq_length [OF assms(3)] by simp
  have pts: "map estimated_point A = map sighting_point (map sighting_of A)"
    "map estimated_point B = map sighting_point (map sighting_of B)"
    by (simp_all add: estimated_point_sighting)
  have cfs: "map confidence A = map sighting_confidence (map sighting_of A)"
    "map confidence B = map sighting_confidence (map sighting_of B)"
    by (simp_all add: confidence_sighting)
  show ?thesis
  proof (cases "length A < 2")
    case True
    then show ?thesis using assms(1,2) len
      by (simp add: calculate_position_def validate_observations_def estimate_values_def)
  next
    case False
    then have two: "2 \<le> length A" "2 \<le> length B" using len by simp_all
    have wa: "calculate_weighted_average (map estimated_point A) (map confidence A)
            = calculate_weighted_average (map estimated_point B) (map confidence B)"
      unfolding pts cfs by (rule weighted_average_mset [OF assms(3)])
    have pm: "\<And>wp. calculate_precision_metrics (map estimated_point A) wp (length B)
            = calculate_precision_metrics (map estimated_point B) wp (length B)"
      unfolding pts by (rule precision_metrics_mset [OF assms(3)])
    show ?thesis
      by (simp add: calculate_position_two_or_more [OF assms(1) two(1)]
            calculate_position_two_or_more [OF assms(2) two(2)] wa pm len
            estimate_values_def build_result_def split: sum.splits)
  qed
qed

text \<open>
  Claim C2. Adding the same sightings to a fresh target (absent, or just created) in any two
  orders, each call with its own clock reading, and then calling \<^verbatim>\<open>calculate_position\<close>
  gives the same result: the same error for fewer than two sightings, and otherwise the same
  target id, latitude, longitude, precision metrics and observation count. In real
  arithmetic the two results are equal, not only close.
\<close>

theorem calculate_position_order_independent:
  assumes "observations self tid = None \<or> observations self tid = Some []"
    and "mset (map fst xs) = mset (map fst ys)"
  shows "estimate_values (fst (calculate_position (add_all self tid xs) tid now))
       = estimate_values (fst (calculate_position (add_all self tid ys) tid now'))"
proof (cases "xs = []")
  case True
  then have "ys = []" using assms(2) by simp
  with True assms(1) show ?thesis
    by (auto simp add: calculate_position_def validate_observations_def estimate_values_def)
next
  case False
  then have ys: "ys \<noteq> []" using assms(2) by auto
  have e: "stored_observations self tid = []"
    using assms(1) by (auto simp: stored_observations_def)
  have "mset (map sighting_of (stored_observations (add_all self tid xs) tid))
      = mset (map sighting_of (stored_observations (add_all self tid ys) tid))"
    using assms(2) by (simp add: stored_add_all e)
  then show ?thesis
    by (rule calculate_position_mset [OF add_all_Some [OF False] add_all_Some [OF ys]])
qed

theorem calculate_position_order_independent_witness:
  "(observations init ''A'' = None \<or> observations init ''A'' = Some [])
   \<and> mset (map fst [((pose_A, 0, 30, 1), 0 :: real), ((pose_A, 90, 30, 1), 1)])
     = mset (map fst [((pose_A, 90, 30, 1), 7 :: real), ((pose_A, 0, 30, 1), 8)])
   \<and> estimate_values (fst (calculate_position
        (add_all init ''A'' [((pose_A, 0, 30, 1), 0), ((pose_A, 90, 30, 1), 1)]) ''A'' 5))
     = estimate_values (fst (calculate_position
        (add_all init ''A'' [((pose_A, 90, 30, 1), 7), ((pose_A, 0, 30, 1), 8)]) ''A'' 9))"
proof -
  have h1: "observations init ''A'' = None \<or> observations init ''A'' = Some []"
    by (simp add: init_def)
  have h2: "mset (map fst [((pose_A, 0, 30, 1), 0 :: real), ((pose_A, 90, 30, 1), 1)])
     = mset (map fst [((pose_A, 90, 30, 1), 7 :: real), ((pose_A, 0, 30, 1), 8)])"
    by simp
  show ?thesis
    using h1 h2 calculate_position_order_independent [OF h1 h2, of 5 9] by blast
qed

subsection \<open>Observation ids\<close>

lemma digit_char_inj:
  assumes "a < 10" and "b < 10" and "digit_char a = digit_char b"
  shows "a = b"
proof -
  have "(of_char (digit_char a) :: nat) = of_char (digit_char b)"
    using assms(3) by simp
  then have "(48 + a) mod 256 = (48 + b) mod 256"
    by (simp add: digit_char_def)
  then show ?thesis using assms(1,2) by simp
qed

lemma str_nat_not_Nil: "str_nat n \<noteq> []"
  by (subst str_nat.simps) simp

lemma str_nat_inj: "str_nat n = str_nat m \<Longrightarrow> n = m"
proof (induction n arbitrary: m rule: str_nat.induct)
  case (1 n)
  show ?case
  proof (cases "n < 10")
    case n: True
    show ?thesis
    proof (cases "m < 10")
      case True
      with n "1.prems" show ?thesis
        by (simp add: str_nat.simps [of n] str_nat.simps [of m] digit_char_inj)
    next
      case False
      with n "1.prems" show ?thesis
        by (simp add: str_nat.simps [of n] str_nat.simps [of m] str_nat_not_Nil
              Cons_eq_append_conv)
    qed
  next
    case n: False
    show ?thesis
    proof (cases "m < 10")
      case True
      with n "1.prems" show ?thesis
        by (simp add: str_nat.simps [of n] str_nat.simps [of m] str_nat_not_Nil
              append_eq_Cons_conv)
    next
      case False
      with n "1.prems" have e: "str_nat (n div 10) = str_nat (m div 10)"
        and d: "digit_char (n mod 10) = digit_char (m mod 10)"
        by (simp_all add: str_nat.simps [of n] str_nat.simps [of m])
      have "n div 10 = m div 10" using "1.IH" [OF n e] .
      moreover have "n mod 10 = m mod 10"
        using d by (intro digit_char_inj) simp_all
      ultimately show ?thesis by (metis div_mult_mod_eq)
    qed
  qed
qed

lemma numbered_Nil: "numbered tid []"
  by (simp add: numbered_def)

lemma numbered_distinct:
  assumes "numbered tid obs"
  shows "distinct (map obs_id obs)"
proof -
  have "inj (\<lambda>i. tid @ ''_'' @ str_nat i)"
    by (rule injI) (simp add: str_nat_inj)
  then have "distinct (map (\<lambda>i. tid @ ''_'' @ str_nat i) [0..<length obs])"
    by (simp add: distinct_map inj_on_def)
  then show ?thesis using assms by (simp add: numbered_def)
qed

lemma numbered_fresh:
  assumes "numbered tid obs"
  shows "tid @ ''_'' @ str_nat (length obs) \<notin> set (map obs_id obs)"
proof -
  have "set (map obs_id obs) = (\<lambda>i. tid @ ''_'' @ str_nat i) ` {0..<length obs}"
    using assms by (simp add: numbered_def)
  then show ?thesis by (auto dest: str_nat_inj)
qed

lemma step_numbered:
  assumes "\<And>tid obs. observations self tid = Some obs \<Longrightarrow> numbered tid obs"
    and "observations (step self c) tid = Some obs"
  shows "numbered tid obs"
proof (cases c)
  case (AddObservation t p b e cf now)
  show ?thesis
  proof (cases "t = tid")
    case True
    define stored where "stored = (case observations self tid of None \<Rightarrow> [] | Some l \<Rightarrow> l)"
    have ns: "numbered tid stored"
      using assms(1) by (auto simp: stored_def numbered_Nil split: option.splits)
    have "map obs_id obs = map obs_id stored @ [tid @ ''_'' @ str_nat (length stored)]"
      and "length obs = Suc (length stored)"
      using assms(2) AddObservation True
      by (auto simp: add_observation_def Let_def stored_def)
    then show ?thesis using ns by (simp add: numbered_def)
  next
    case False
    then have "observations (step self c) tid = observations self tid"
      using AddObservation by (simp add: add_observation_def Let_def)
    then show ?thesis using assms by simp
  qed
next
  case (ResetTarget t)
  then have "observations self tid = Some obs"
    using assms(2) by (auto simp: reset_target_def split: if_splits)
  then show ?thesis using assms(1) by simp
next
  case (CreateTarget h)
  then have "obs = [] \<or> observations self tid = Some obs"
    using assms(2) by (auto simp: create_target_def Let_def split: if_splits)
  then show ?thesis using assms(1) numbered_Nil by auto
qed

lemma foldl_step_numbered:
  assumes "\<And>tid obs. observations self tid = Some obs \<Longrightarrow> numbered tid obs"
    and "observations (foldl step self calls) tid = Some obs"
  shows "numbered tid obs"
  using assms
proof (induction calls arbitrary: self tid obs)
  case Nil
  then show ?case by simp
next
  case (Cons c calls)
  show ?case
  proof (rule Cons.IH [of "step self c"])
    show "\<And>t l. observations (step self c) t = Some l \<Longrightarrow> numbered t l"
      using step_numbered Cons.prems(1) by blast
    show "observations (foldl step (step self c) calls) tid = Some obs"
      using Cons.prems(2) by simp
  qed
qed

lemma run_numbered:
  assumes "observations (run calls) tid = Some obs"
  shows "numbered tid obs"
  using foldl_step_numbered [of init calls tid obs] assms
  by (simp add: run_def init_def)

text \<open>
  Claim C9, as the code has it. After any sequence of \<^verbatim>\<open>add_observation\<close>,
  \<^verbatim>\<open>reset_target\<close> and \<^verbatim>\<open>create_target\<close> calls on a new object, the observations held for
  a target (those added since the target was last reset or created) have pairwise distinct
  ids, and the next \<^verbatim>\<open>add_observation\<close> for that target returns an id different from all
  of them, which is the id of the observation it appends.
\<close>

theorem observation_ids_distinct:
  assumes "observations (run calls) tid = Some obs"
  shows "distinct (map obs_id obs)
    \<and> fst (add_observation (run calls) tid drone_pos bearing elevation conf now)
        \<notin> set (map obs_id obs)
    \<and> (\<exists>entry. observations (snd (add_observation (run calls) tid drone_pos bearing
                    elevation conf now)) tid = Some (obs @ [entry])
          \<and> obs_id entry = fst (add_observation (run calls) tid drone_pos bearing
                    elevation conf now))"
  using numbered_distinct [OF run_numbered [OF assms]] numbered_fresh [OF run_numbered [OF assms]]
    assms
  by (simp add: add_observation_def Let_def)

theorem observation_ids_distinct_witness:
  "observations (run [AddObservation ''A'' pose_A 0 30 1 0,
                      AddObservation ''A'' pose_A 90 30 1 1]) ''A''
     = Some [\<lparr>obs_id = ''A_0'', obs_drone_position = pose_A, target_bearing = 0,
             target_elevation = 30, confidence = 1, obs_timestamp = 0\<rparr>,
           \<lparr>obs_id = ''A_1'', obs_drone_position = pose_A, target_bearing = 90,
             target_elevation = 30, confidence = 1, obs_timestamp = 1\<rparr>]
   \<and> distinct [''A_0'', ''A_1'']
   \<and> fst (add_observation (run [AddObservation ''A'' pose_A 0 30 1 0,
                      AddObservation ''A'' pose_A 90 30 1 1]) ''A'' pose_A 10 20 1 2)
       \<notin> {''A_0'', ''A_1''}"
proof -
  have r: "run [AddObservation ''A'' pose_A 0 30 1 0, AddObservation ''A'' pose_A 90 30 1 1]
           = scenario_A"
    by (simp add: run_def scenario_A_def)
  show ?thesis
    using observation_ids_distinct [of "[AddObservation ''A'' pose_A 0 30 1 0,
                      AddObservation ''A'' pose_A 90 30 1 1]" "''A''" _ pose_A 10 20 1 2]
    by (simp add: r scenario_A_observations)
qed

text \<open>
  Claim C9 as stated fails: the id is the target id and the length of the stored list, and
  \<^verbatim>\<open>reset_target\<close> deletes the list, so the first observation after a reset gets the id of
  the first observation before it.
\<close>

theorem observation_id_reused_after_reset:
  "fst (add_observation (snd (reset_target (snd (add_observation init ''A'' pose_A 0 30 1 0))
          ''A'')) ''A'' pose_A 90 30 1 1) = ''A_0''
   \<and> fst (add_observation init ''A'' pose_A 0 30 1 0) = ''A_0''"
  by (simp add: add_observation_def reset_target_def init_def Let_def str_nat_0)

subsection \<open>Scenario A\<close>

text \<open>
  Bounds on \<open>pi\<close> and on the cosine of 40 degrees, from the Maclaurin polynomial of the sine
  at \<open>pi / 6\<close> and from the triple-angle formula at 120 degrees.
\<close>

lemma sin_poly:
  "\<bar>sin x - (x - x ^ 3 / 6 + x ^ 5 / 120)\<bar> \<le> \<bar>x\<bar> ^ 7 / 5040" for x :: real
proof -
  have c: "sin_coeff 0 = 0" "sin_coeff (Suc 0) = 1" "sin_coeff 2 = 0" "sin_coeff 3 = - 1 / 6"
    "sin_coeff 4 = 0" "sin_coeff 5 = 1 / 120" "sin_coeff 6 = 0"
    by (simp_all add: sin_coeff_def fact_numeral)
  have "{..<7::nat} = {0, 1, 2, 3, 4, 5, 6}"
    by auto
  then have s: "(\<Sum>m<7. sin_coeff m * x ^ m) = x - x ^ 3 / 6 + x ^ 5 / 120"
    by (simp add: c)
  have "fact 7 = (5040 :: real)"
    by (simp add: fact_numeral)
  then have f: "inverse (fact 7) * \<bar>x\<bar> ^ 7 = \<bar>x\<bar> ^ 7 / 5040"
    by (simp only: divide_inverse mult.commute)
  have "\<bar>sin x - (\<Sum>m<7. sin_coeff m * x ^ m)\<bar> \<le> inverse (fact 7) * \<bar>x\<bar> ^ 7"
    by (rule Maclaurin_sin_bound)
  then show ?thesis
    unfolding s f .
qed


lemma sin_upper:
  fixes x :: real
  assumes "0 \<le> x"
  shows "sin x \<le> x - x ^ 3 / 6 + x ^ 5 / 120 + x ^ 7 / 5040"
proof -
  have "sin x - (x - x ^ 3 / 6 + x ^ 5 / 120) \<le> \<bar>x\<bar> ^ 7 / 5040"
    using sin_poly [of x] by (rule abs_le_D1)
  then show ?thesis using assms by simp
qed

lemma sin_lower:
  fixes x :: real
  assumes "0 \<le> x"
  shows "x - x ^ 3 / 6 + x ^ 5 / 120 - x ^ 7 / 5040 \<le> sin x"
proof -
  have "- (sin x - (x - x ^ 3 / 6 + x ^ 5 / 120)) \<le> \<bar>x\<bar> ^ 7 / 5040"
    using sin_poly [of x] by (rule abs_le_D2)
  then show ?thesis using assms by simp
qed

lemma pi_gt_3141: "3.141 < pi"
proof -
  have "sin (3141 / 6000 :: real) < 1 / 2"
    using sin_upper [of "3141 / 6000"] by (simp add: power_divide)
  then have "sin (3141 / 6000 :: real) < sin (pi / 6)"
    by (simp add: sin_30)
  moreover have "(3141 / 6000 :: real) \<le> pi / 2" "- (pi / 2) \<le> (3141 / 6000 :: real)"
    using pi_ge_two by simp_all
  ultimately have "(3141 / 6000 :: real) < pi / 6"
    by (subst (asm) sin_mono_less_eq) simp_all
  then show ?thesis by simp
qed

lemma pi_lt_3142: "pi < 3.142"
proof -
  have "1 / 2 < sin (3142 / 6000 :: real)"
    using sin_lower [of "3142 / 6000"] by (simp add: power_divide)
  then have "sin (pi / 6) < sin (3142 / 6000 :: real)"
    by (simp add: sin_30)
  moreover have "(3142 / 6000 :: real) \<le> pi / 2" "- (pi / 2) \<le> (3142 / 6000 :: real)"
    using pi_ge_two by simp_all
  ultimately have "pi / 6 < (3142 / 6000 :: real)"
    by (subst (asm) sin_mono_less_eq) simp_all
  then show ?thesis by simp
qed

lemma cos_40_cubic: "8 * cos (2 * pi / 9) ^ 3 - 6 * cos (2 * pi / 9) + 1 = 0"
proof -
  have e: "3 * (2 * pi / 9) = 2 * pi / 3"
    by simp
  have "cos (2 * pi / 3) = 4 * cos (2 * pi / 9) ^ 3 - 3 * cos (2 * pi / 9)"
    using cos_treble_cos [of "2 * pi / 9"] unfolding e .
  then show ?thesis
    by (simp add: cos_120)
qed

lemma cos_40_gt_half: "1 / 2 < cos (2 * pi / 9)"
proof -
  have "cos (pi / 3) < cos (2 * pi / 9)"
    by (subst cos_mono_less_eq) simp_all
  then show ?thesis by (simp add: cos_60)
qed

lemma cubic_factor:
  "(8 * c ^ 3 - 6 * c + 1) - (8 * a ^ 3 - 6 * a + 1)
     = (c - a) * (8 * (c\<^sup>2 + c * a + a\<^sup>2) - 6)" for c a :: real
  by (simp add: power2_eq_square power3_eq_cube algebra_simps)

lemma cubic_slope:
  fixes c a :: real
  assumes "1 / 2 < c" and "1 / 2 < a"
  shows "0 < 8 * (c\<^sup>2 + c * a + a\<^sup>2) - 6"
proof -
  have "(1 / 2)\<^sup>2 < c\<^sup>2" "(1 / 2)\<^sup>2 < a\<^sup>2"
    using assms by (simp_all add: power_strict_mono)
  moreover have "(1 / 2) * (1 / 2) < c * a"
    using assms by (intro mult_strict_mono) simp_all
  ultimately show ?thesis by (simp add: power2_eq_square)
qed

lemma cos_40_bounds: "0.766 < cos (2 * pi / 9)" "cos (2 * pi / 9) < 0.7661"
proof -
  define c where "c = cos (2 * pi / 9)"
  have z: "8 * c ^ 3 - 6 * c + 1 = 0" and h: "1 / 2 < c"
    using cos_40_cubic cos_40_gt_half by (simp_all add: c_def)
  have lo: "0.766 < c"
  proof (rule ccontr)
    assume "\<not> 0.766 < c"
    then have "c - 0.766 \<le> 0" by simp
    moreover have "0 < 8 * (c\<^sup>2 + c * 0.766 + 0.766\<^sup>2) - 6"
      using h by (intro cubic_slope) simp_all
    ultimately have "(c - 0.766) * (8 * (c\<^sup>2 + c * 0.766 + 0.766\<^sup>2) - 6) \<le> 0"
      by (simp add: mult_nonpos_nonneg)
    then have "(8 * c ^ 3 - 6 * c + 1) - (8 * 0.766 ^ 3 - 6 * 0.766 + 1) \<le> (0 :: real)"
      by (simp only: cubic_factor)
    then show False by (simp add: z power_divide)
  qed
  have hi: "c < 0.7661"
  proof (rule ccontr)
    assume "\<not> c < 0.7661"
    then have "0 \<le> c - 0.7661" by simp
    moreover have "0 < 8 * (c\<^sup>2 + c * 0.7661 + 0.7661\<^sup>2) - 6"
      using h by (intro cubic_slope) simp_all
    ultimately have "0 \<le> (c - 0.7661) * (8 * (c\<^sup>2 + c * 0.7661 + 0.7661\<^sup>2) - 6)"
      by simp
    then have "0 \<le> (8 * c ^ 3 - 6 * c + 1) - (8 * 0.7661 ^ 3 - 6 * 0.7661 + (1 :: real))"
      by (simp only: cubic_factor)
    then show False by (simp add: z power_divide)
  qed
  show "0.766 < cos (2 * pi / 9)" "cos (2 * pi / 9) < 0.7661"
    using lo hi by (simp_all add: c_def)
qed

lemma degrees_radians_add: "degrees (radians x + y) = x + y * 180 / pi"
  by (simp add: degrees_def radians_def field_simps)

lemma radians_values:
  "radians 0 = 0" "radians 30 = pi / 6" "radians 90 = pi / 2" "radians 40 = 2 * pi / 9"
  by (simp_all add: radians_def)

lemma estimate_distance_A: "estimate_distance 100 (pi / 6) = 200"
  by (simp add: estimate_distance_def distance_before_cap_def sin_30)

lemma offset_A_bounds: "0.0017984 < offset_A" "offset_A < 0.0017990"
proof -
  have "0.0017984 * pi < 200 / 6371000 * 180"
    using pi_lt_3142 by simp
  then show "0.0017984 < offset_A"
    by (simp add: offset_A_def pos_less_divide_eq)
  have "200 / 6371000 * 180 < 0.0017990 * pi"
    using pi_gt_3141 by simp
  then show "offset_A < 0.0017990"
    by (simp add: offset_A_def pos_divide_less_eq)
qed

lemma offset_A_over_cos_bounds:
  "0.002347 < offset_A / cos (2 * pi / 9)" "offset_A / cos (2 * pi / 9) < 0.002349"
proof -
  have c: "0 < cos (2 * pi / 9)"
    using cos_40_bounds(1) by simp
  have "0.002347 * cos (2 * pi / 9) < offset_A"
    using cos_40_bounds(2) offset_A_bounds(1) by simp
  then show "0.002347 < offset_A / cos (2 * pi / 9)"
    using c by (simp add: pos_less_divide_eq)
  have "offset_A < 0.002349 * cos (2 * pi / 9)"
    using cos_40_bounds(1) offset_A_bounds(2) by simp
  then show "offset_A / cos (2 * pi / 9) < 0.002349"
    using c by (simp add: pos_divide_less_eq)
qed

lemma target_coordinates_north:
  "calculate_target_coordinates 40 (- 74) 0 200 6371000 = (40 + offset_A, - 74)"
  by (simp add: calculate_target_coordinates_def Let_def degrees_radians_add offset_A_def)
     (simp add: degrees_def radians_def)

lemma target_coordinates_east:
  "calculate_target_coordinates 40 (- 74) (pi / 2) 200 6371000
     = (40, - 74 + offset_A / cos (2 * pi / 9))"
  by (simp add: calculate_target_coordinates_def Let_def degrees_radians_add offset_A_def
        radians_values)
     (simp add: degrees_def radians_def)


lemma estimated_points_A:
  "map estimated_point
     [\<lparr>obs_id = i1, obs_drone_position = pose_A, target_bearing = 0,
        target_elevation = 30, confidence = 1, obs_timestamp = t1\<rparr>,
      \<lparr>obs_id = i2, obs_drone_position = pose_A, target_bearing = 90,
        target_elevation = 30, confidence = 1, obs_timestamp = t2\<rparr>]
   = [(40 + offset_A, - 74), (40, - 74 + offset_A / cos (2 * pi / 9))]"
  by (simp add: estimated_point_def pose_A_def radians_values estimate_distance_A
        target_coordinates_north target_coordinates_east)

lemma weighted_average_A:
  "calculate_weighted_average [(40 + offset_A, - 74), (40, - 74 + offset_A / cos (2 * pi / 9))]
     [1, 1]
   = Inr (Some (40 + offset_A / 2, - 74 + offset_A / cos (2 * pi / 9) / 2))"
  by (simp add: calculate_weighted_average_returns diff_divide_distrib)

text \<open>
  Claim C1. For the two observations of Scenario A the distance estimate is 200 (exactly, in
  real arithmetic), the two estimated points are within 0.000005 degrees of
  \<open>(40.0018, -74)\<close> and \<open>(40, -73.99765)\<close>, and the position returned by
  \<^verbatim>\<open>calculate_position\<close> is within 0.000005 degrees of \<open>(40.0009, -73.99883)\<close>: the
  figures of the scenario are right to the fifth decimal.
\<close>

theorem scenario_A_estimate:
  "estimate_distance (altitude pose_A) (radians 30) = 200
   \<and> (\<exists>obs lat1 lon1 lat2 lon2 est lat lon.
        observations scenario_A ''A'' = Some obs
      \<and> calculate_estimated_points (extract_observation_data obs)
           = Inr [(lat1, lon1), (lat2, lon2)]
      \<and> \<bar>lat1 - 40.0018\<bar> < 0.000005 \<and> lon1 = - 74
      \<and> lat2 = 40 \<and> \<bar>lon2 - (- 73.99765)\<bar> < 0.000005
      \<and> fst (calculate_position scenario_A ''A'' now) = Inr est
      \<and> observations_count est = 2
      \<and> pos_latitude (position est) = Some lat
      \<and> pos_longitude (position est) = Some lon
      \<and> \<bar>lat - 40.0009\<bar> < 0.000005 \<and> \<bar>lon - (- 73.99883)\<bar> < 0.000005)"
proof -
  define obs where "obs =
     [\<lparr>obs_id = ''A_0'', obs_drone_position = pose_A, target_bearing = 0,
        target_elevation = 30, confidence = 1, obs_timestamp = 0\<rparr>,
      \<lparr>obs_id = ''A_1'', obs_drone_position = pose_A, target_bearing = 90,
        target_elevation = 30, confidence = 1, obs_timestamp = 1\<rparr>]"
  define east where "east = offset_A / cos (2 * pi / 9)"
  have o: "observations scenario_A ''A'' = Some obs"
    by (simp add: scenario_A_observations obs_def)
  have len: "length obs = 2"
    by (simp add: obs_def)
  have pts: "map estimated_point obs = [(40 + offset_A, - 74), (40, - 74 + east)]"
    unfolding obs_def east_def by (rule estimated_points_A)
  have ws: "map confidence obs = [1, 1]"
    by (simp add: obs_def)
  have wa: "calculate_weighted_average (map estimated_point obs) (map confidence obs)
            = Inr (Some (40 + offset_A / 2, - 74 + east / 2))"
    unfolding pts ws east_def by (rule weighted_average_A)
  have ne: "map estimated_point obs \<noteq> []"
    by (simp add: pts)
  obtain pm where pm: "calculate_precision_metrics (map estimated_point obs)
      (Some (40 + offset_A / 2, - 74 + east / 2)) 2 = Inr pm"
    using calculate_precision_metrics_returns [OF ne,
        of "Some (40 + offset_A / 2, - 74 + east / 2)" 2]
    by blast
  have r: "fst (calculate_position scenario_A ''A'' now)
      = Inr (build_result ''A'' (Some (40 + offset_A / 2, - 74 + east / 2)) pm 2 now)"
    using calculate_position_two_or_more [OF o, of now] by (simp only: len wa pm sum.case order_refl)
  have d: "estimate_distance (altitude pose_A) (radians 30) = 200"
    by (simp add: pose_A_def radians_values estimate_distance_A)
  have b1: "\<bar>(40 + offset_A) - 40.0018\<bar> < 0.000005"
    unfolding abs_less_iff using offset_A_bounds by simp
  have eb: "0.002347 < east" "east < 0.002349"
    unfolding east_def by (rule offset_A_over_cos_bounds)+
  have b2: "\<bar>(- 74 + east) - (- 73.99765)\<bar> < 0.000005"
    unfolding abs_less_iff using eb by simp
  have b3: "\<bar>(40 + offset_A / 2) - 40.0009\<bar> < 0.000005"
    unfolding abs_less_iff using offset_A_bounds by simp
  have b4: "\<bar>(- 74 + east / 2) - (- 73.99883)\<bar> < 0.000005"
    unfolding abs_less_iff using eb by simp
  have e: "calculate_estimated_points (extract_observation_data obs)
      = Inr [(40 + offset_A, - 74), (40, - 74 + east)]"
    by (simp add: calculate_estimated_points_extract pts)
  have res: "observations_count (build_result ''A'' (Some (40 + offset_A / 2, - 74 + east / 2))
                pm 2 now) = 2"
    "pos_latitude (position (build_result ''A'' (Some (40 + offset_A / 2, - 74 + east / 2))
                pm 2 now)) = Some (40 + offset_A / 2)"
    "pos_longitude (position (build_result ''A'' (Some (40 + offset_A / 2, - 74 + east / 2))
                pm 2 now)) = Some (- 74 + east / 2)"
    by (simp_all add: build_result_def)
  show ?thesis
    using d o e b1 b2 r res b3 b4 by blast
qed

subsection \<open>Confidence\<close>

lemma calculate_precision_metrics_Some:
  assumes "ps \<noteq> []"
  shows "calculate_precision_metrics ps (Some c) n =
    Inr \<lparr>meters = Some (sum_list (map (\<lambda>p. sqrt ((fst p - fst c)\<^sup>2 + (snd p - snd c)\<^sup>2)) ps)
                          / real (length ps) * 111000),
         prec_confidence = max 0 (min 99
           (100 * (1 - sum_list (map (\<lambda>p. sqrt ((fst p - fst c)\<^sup>2 + (snd p - snd c)\<^sup>2)) ps)
                          / real (length ps) / 0.001)
                * tanh (real n / 3))),
         max_deviation_meters =
           Some (Max (set (map (\<lambda>p. sqrt ((fst p - fst c)\<^sup>2 + (snd p - snd c)\<^sup>2)) ps))
                 * 111000)\<rparr>"
proof -
  have "map (\<lambda>p. sqrt ((fst p - fst c)\<^sup>2 + (snd p - snd c)\<^sup>2)) ps \<noteq> []"
    using assms by simp
  then show ?thesis
    unfolding calculate_precision_metrics_def
    by (simp add: np_max_nonempty Let_def)
qed

lemma calculate_precision_metrics_None:
  assumes "ps \<noteq> []"
  shows "calculate_precision_metrics ps None n =
    Inr \<lparr>meters = None, prec_confidence = 99, max_deviation_meters = None\<rparr>"
  using assms by (simp add: calculate_precision_metrics_def)

lemma sum_list_weighted:
  "sum_list (map2 (\<lambda>p w. f p * w) (map g xs) (map (\<lambda>w. w / t) (map h xs)))
     = sum_list (map (\<lambda>x. f (g x) * h x) xs) / (t :: real)"
  by (induction xs) (simp_all add: add_divide_distrib)

text \<open>
  Claim C4. For a target with at least two observations \<^verbatim>\<open>calculate_position\<close> returns an
  estimate whose confidence lies in the interval from 0 to 99. When the confidences do not
  sum to zero, the returned position is the weighted centroid of the estimated points, the
  average distance is the mean of the distances in degrees from the estimated points to that
  position, the returned \<open>meters\<close> is that average times 111000, and the confidence is
  \<open>100 * (1 - avg_distance / 0.001) * tanh (count / 3)\<close> clamped to the interval. When the
  confidences sum to zero the position and the distances are nan, and the clamp
  \<^verbatim>\<open>max(0, min(99, nan))\<close> gives 99. The witness is Scenario A, where the points lie more than
  0.001 degrees from their centroid and the confidence is 0.
\<close>

theorem confidence_within_0_99:
  assumes "observations self tid = Some obs" and "2 \<le> length obs"
  shows "\<exists>est. fst (calculate_position self tid now) = Inr est
     \<and> 0 \<le> prec_confidence (precision est) \<and> prec_confidence (precision est) \<le> 99
     \<and> (sum_list (map confidence obs) \<noteq> 0 \<longrightarrow>
          (\<exists>lat lon avg_distance.
             pos_latitude (position est) = Some lat
           \<and> pos_longitude (position est) = Some lon
           \<and> lat = sum_list (map (\<lambda>ob. fst (estimated_point ob) * confidence ob) obs)
                     / sum_list (map confidence obs)
           \<and> lon = sum_list (map (\<lambda>ob. snd (estimated_point ob) * confidence ob) obs)
                     / sum_list (map confidence obs)
           \<and> avg_distance =
                sum_list (map (\<lambda>ob. sqrt ((fst (estimated_point ob) - lat)\<^sup>2
                                          + (snd (estimated_point ob) - lon)\<^sup>2)) obs)
                  / real (length obs)
           \<and> meters (precision est) = Some (avg_distance * 111000)
           \<and> prec_confidence (precision est) =
                max 0 (min 99 (100 * (1 - avg_distance / 0.001)
                                 * tanh (real (length obs) / 3)))))
     \<and> (sum_list (map confidence obs) = 0 \<longrightarrow>
          pos_latitude (position est) = None \<and> pos_longitude (position est) = None
        \<and> meters (precision est) = None \<and> prec_confidence (precision est) = 99)"
proof -
  have ne: "map confidence obs \<noteq> []" "map estimated_point obs \<noteq> []"
    using assms(2) by auto
  have len: "length (map estimated_point obs) = length (map confidence obs)"
    by simp
  show ?thesis
  proof (cases "sum_list (map confidence obs) = 0")
    case True
    have wa: "calculate_weighted_average (map estimated_point obs) (map confidence obs)
              = Inr None"
      using calculate_weighted_average_returns [OF len ne(1)] True by simp
    have "fst (calculate_position self tid now) =
        Inr (build_result tid None
               \<lparr>meters = None, prec_confidence = 99, max_deviation_meters = None\<rparr>
               (length obs) now)"
      by (simp only: calculate_position_two_or_more [OF assms] wa
            calculate_precision_metrics_None [OF ne(2)] sum.case)
    then show ?thesis using True by (simp add: build_result_def)
  next
    case False
    define t where "t = sum_list (map confidence obs)"
    define lat where "lat = sum_list (map (\<lambda>ob. fst (estimated_point ob) * confidence ob) obs) / t"
    define lon where "lon = sum_list (map (\<lambda>ob. snd (estimated_point ob) * confidence ob) obs) / t"
    have wa: "calculate_weighted_average (map estimated_point obs) (map confidence obs)
              = Inr (Some (lat, lon))"
      using False
      by (simp only: calculate_weighted_average_returns [OF len ne(1)] if_False
            sum_list_weighted lat_def lon_def t_def)
    define pm where "pm =
      \<lparr>meters = Some (sum_list (map (\<lambda>p. sqrt ((fst p - fst (lat, lon))\<^sup>2
                                             + (snd p - snd (lat, lon))\<^sup>2))
                                  (map estimated_point obs))
                          / real (length (map estimated_point obs)) * 111000),
         prec_confidence = max 0 (min 99
           (100 * (1 - sum_list (map (\<lambda>p. sqrt ((fst p - fst (lat, lon))\<^sup>2
                                                + (snd p - snd (lat, lon))\<^sup>2))
                               (map estimated_point obs))
                          / real (length (map estimated_point obs)) / 0.001)
                * tanh (real (length obs) / 3))),
         max_deviation_meters =
           Some (Max (set (map (\<lambda>p. sqrt ((fst p - fst (lat, lon))\<^sup>2
                                          + (snd p - snd (lat, lon))\<^sup>2))
                           (map estimated_point obs)))
                 * 111000)\<rparr>"
    have "fst (calculate_position self tid now)
        = Inr (build_result tid (Some (lat, lon)) pm (length obs) now)"
      by (simp only: calculate_position_two_or_more [OF assms] wa
            calculate_precision_metrics_Some [OF ne(2)] sum.case pm_def)
    then show ?thesis using False
      by (simp add: build_result_def pm_def comp_def lat_def lon_def t_def)
  qed
qed


theorem confidence_within_0_99_witness:
  "\<exists>obs est. observations scenario_A ''A'' = Some obs \<and> 2 \<le> length obs
     \<and> sum_list (map confidence obs) \<noteq> 0
     \<and> fst (calculate_position scenario_A ''A'' 5) = Inr est
     \<and> prec_confidence (precision est) = 0"
proof -
  define o1 where "o1 = \<lparr>obs_id = ''A_0'', obs_drone_position = pose_A, target_bearing = 0,
        target_elevation = 30, confidence = 1, obs_timestamp = 0\<rparr>"
  define o2 where "o2 = \<lparr>obs_id = ''A_1'', obs_drone_position = pose_A, target_bearing = 90,
        target_elevation = 30, confidence = 1, obs_timestamp = 1\<rparr>"
  define east where "east = offset_A / cos (2 * pi / 9)"
  have p: "estimated_point o1 = (40 + offset_A, - 74)" "estimated_point o2 = (40, - 74 + east)"
    using estimated_points_A [of "''A_0''" 0 "''A_1''" 1] by (simp_all add: o1_def o2_def east_def)
  have c: "confidence o1 = 1" "confidence o2 = 1"
    by (simp_all add: o1_def o2_def)
  have o: "observations scenario_A ''A'' = Some [o1, o2]"
    by (simp add: scenario_A_observations o1_def o2_def)
  have two: "2 \<le> length [o1, o2]"
    by simp
  have s: "sum_list (map confidence [o1, o2]) \<noteq> 0"
    by (simp add: c)
  obtain est lat lon avg where
    r: "fst (calculate_position scenario_A ''A'' 5) = Inr est"
    and lon: "lon = sum_list (map (\<lambda>ob. snd (estimated_point ob) * confidence ob) [o1, o2])
                     / sum_list (map confidence [o1, o2])"
    and avg: "avg = sum_list (map (\<lambda>ob. sqrt ((fst (estimated_point ob) - lat)\<^sup>2
                                          + (snd (estimated_point ob) - lon)\<^sup>2)) [o1, o2])
                  / real (length [o1, o2])"
    and conf: "prec_confidence (precision est) =
                max 0 (min 99 (100 * (1 - avg / 0.001) * tanh (real (length [o1, o2]) / 3)))"
    using confidence_within_0_99 [OF o two, of 5] s by blast
  have lon': "lon = - 74 + east / 2"
    by (simp add: lon p c diff_divide_distrib)
  have eb: "0.002347 < east"
    unfolding east_def by (rule offset_A_over_cos_bounds(1))
  define d1 where "d1 = sqrt ((fst (estimated_point o1) - lat)\<^sup>2
                              + (snd (estimated_point o1) - lon)\<^sup>2)"
  define d2 where "d2 = sqrt ((fst (estimated_point o2) - lat)\<^sup>2
                              + (snd (estimated_point o2) - lon)\<^sup>2)"
  have "\<bar>snd (estimated_point o1) - lon\<bar> \<le> d1" "\<bar>snd (estimated_point o2) - lon\<bar> \<le> d2"
    unfolding d1_def d2_def by (rule real_sqrt_ge_abs2)+
  then have "east / 2 \<le> d1" "east / 2 \<le> d2"
    by (simp_all add: p lon')
  moreover have "avg = (d1 + d2) / 2"
    by (simp add: avg d1_def d2_def)
  ultimately have "0.001 < avg"
    using eb by simp
  then have "100 * (1 - avg / 0.001) < 0"
    by simp
  moreover have "0 < tanh (real (length [o1, o2]) / 3)"
    by simp
  ultimately have "100 * (1 - avg / 0.001) * tanh (real (length [o1, o2]) / 3) < 0"
    by (rule mult_neg_pos)
  then have "prec_confidence (precision est) = 0"
    unfolding conf by simp
  then show ?thesis using o two s r by blast
qed

section \<open>Properties of GeoCorrelator\<close>

text \<open>
  Claim C6 fails on the code: \<^verbatim>\<open>_extract_gps_data\<close> tests \<^verbatim>\<open>not latitude or not longitude\<close>,
  which is also true for a coordinate that is present and equal to 0. Telemetry from the
  equator (latitude 0, longitude -74) gets the error that the GPS data are not available.
\<close>

theorem correlate_drone_image_latitude_zero:
  "correlate_drone_image drone_image
     \<lparr>tel_gps = Some \<lparr>gps_latitude = Some 0, gps_longitude = Some (- 74)\<rparr>,
      tel_altitude = Some 100, tel_orientation = None\<rparr>
     (6 / 10) get_satellite_image now = Inl MissingGPS"
  by (simp add: correlate_drone_image_def extract_gps_data_def py_not_def)



end
